theory Spec2Isabelle
  imports Complex_Main "HOL-Library.Word"
begin

section \<open>Data model (components.py)\<close>

text \<open>
  The arrays of the source are modelled by their shape and contents. A scalar array
  (\<^verbatim>\<open>jnp.asarray(0)\<close>) is modelled by its element; an array whose shape differs between
  the places that build it (the \<^verbatim>\<open>position\<close> of a component is \<^verbatim>\<open>(1, 2)\<close>-shaped by
  default and \<^verbatim>\<open>(2,)\<close>-shaped where an environment places it) keeps its shape in the
  constructor.
\<close>

datatype 'a Array = Scalar 'a | Vector "'a list" | Matrix "'a list list"

record Component =
  position :: "int Array"

record Player = Component +
  direction :: int
  pocket :: int

record Goal = Component +
  probability :: "real list"

record Pickable = Component +
  pickable_id :: int

record Consumable = Component +
  requires :: "int list"
  replacement :: "real list"

text \<open>The field defaults of the classes, as the class bodies give them.\<close>

definition Component_position_default :: "int Array" where
  "Component_position_default = Matrix [[0 - 1, 0 - 1]]"

definition Goal_default :: Goal where
  "Goal_default = \<lparr>position = Component_position_default, probability = [1]\<rparr>"

definition Pickable_default :: Pickable where
  "Pickable_default = \<lparr>position = Component_position_default, pickable_id = - 1\<rparr>"

definition Consumable_default :: Consumable where
  "Consumable_default =
     \<lparr>position = Component_position_default, requires = [0 - 1], replacement = [0]\<rparr>"

record 'k State =
  key :: 'k
  grid :: "int list list"
  player :: Player
  goals :: Goal
  keys :: Pickable
  doors :: Consumable

datatype StepType = TRANSITION | TRUNCATION | TERMINATION

fun StepType_value :: "StepType \<Rightarrow> int" where
  "StepType_value TRANSITION = 0"
| "StepType_value TRUNCATION = 1"
| "StepType_value TERMINATION = 2"

text \<open>
  \<^verbatim>\<open>t\<close> is a 32-bit integer array (\<^verbatim>\<open>jnp.asarray(0, dtype=jnp.int32)\<close> at reset), so
  \<^verbatim>\<open>t + 1\<close> wraps; it is read as a signed value where it is compared.
  \<^verbatim>\<open>info\<close> is a dictionary with string keys. The record is used with the State above
  and with the State of the entity-based modules, so the type of \<^verbatim>\<open>state\<close> is its
  first parameter.
\<close>

record ('s, 'o, 'i) Timestep =
  t :: "32 word"
  observation :: 'o
  action :: int
  reward :: real
  step_type :: int
  state :: 's
  info :: "string \<rightharpoonup> 'i"

section \<open>Errors\<close>

datatype error =
    InvalidDimension
  | CapacityError
  | EmptyBranchSequence
  | UnpackError

section \<open>Library operations the environment is written with\<close>

text \<open>
  \<^verbatim>\<open>jax.lax.switch(index, branches, operand)\<close> raises on an empty sequence of
  branches, clamps the index into range and applies the selected branch.
\<close>

definition lax_switch :: "int \<Rightarrow> ('a \<Rightarrow> 'b) list \<Rightarrow> 'a \<Rightarrow> error + 'b" where
  "lax_switch index branches operand =
     (if branches = [] then Inl EmptyBranchSequence
      else Inr ((branches ! nat (min (max index 0) (int (length branches) - 1))) operand))"

text \<open>
  \<^verbatim>\<open>jax.lax.cond(pred, true_fun, false_fun, operand)\<close> traces both branches, the true
  one first, whatever the predicate is, so an exception raised while either branch is
  built leaves the call; the value is the one of the branch the predicate selects.
  The two branches have one result type here, as the library requires of them (the
  same tree structure and element types).
\<close>

definition lax_cond ::
  "bool \<Rightarrow> ('a \<Rightarrow> error + 'b) \<Rightarrow> ('a \<Rightarrow> error + 'b) \<Rightarrow> 'a \<Rightarrow> error + 'b" where
  "lax_cond pred true_fun false_fun operand =
     (case true_fun operand of
        Inl e \<Rightarrow> Inl e
      | Inr x \<Rightarrow>
          (case false_fun operand of
             Inl e \<Rightarrow> Inl e
           | Inr y \<Rightarrow> Inr (if pred then x else y)))"

section \<open>Helpers of the termination and grid modules\<close>

text \<open>
  Modelled from the spec: \<^verbatim>\<open>check_truncation\<close> of the termination module, which is
  absent. The specification's combination rule (section 4.5): if \<^verbatim>\<open>terminated\<close> then
  TERMINATION, else if \<^verbatim>\<open>truncated\<close> then TRUNCATION, else TRANSITION.
\<close>

definition check_truncation :: "bool \<Rightarrow> bool \<Rightarrow> int" where
  "check_truncation terminated truncated =
     (if terminated then StepType_value TERMINATION
      else if truncated then StepType_value TRUNCATION
      else StepType_value TRANSITION)"

text \<open>
  Modelled from the spec: the id of a wall cell, fixed by the grid module, which is
  absent. The specification (section 3) has 0 for floor and positive ids for entities,
  and walls are neither.
\<close>

definition WALL :: int where
  "WALL = - 1"

text \<open>
  Modelled from the spec: \<^verbatim>\<open>room(height, width)\<close> of the grid module, which is absent.
  The specification (section 4.1): a grid with a 1-cell-thick wall border and floor
  interior, failing with an InvalidDimension error if height or width is below 3.
\<close>

definition room_cell :: "int \<Rightarrow> int \<Rightarrow> nat \<Rightarrow> nat \<Rightarrow> int" where
  "room_cell h w i j =
     (if i = 0 \<or> int i = h - 1 \<or> j = 0 \<or> int j = w - 1 then WALL else 0)"

definition room :: "int \<Rightarrow> int \<Rightarrow> error + int list list" where
  "room h w =
     (if h < 3 \<or> w < 3 then Inl InvalidDimension
      else Inr (map (\<lambda>i. map (\<lambda>j. room_cell h w i j) [0..<nat w]) [0..<nat h]))"

section \<open>The environment (environments/environment.py)\<close>

record ('s, 'o) Environment =
  width :: int
  height :: int
  max_steps :: int
  gamma :: real
  observation_fn :: "'s \<Rightarrow> 'o"
  reward_fn :: "'s \<Rightarrow> int \<Rightarrow> 's \<Rightarrow> real"
  termination_fn :: "'s \<Rightarrow> int \<Rightarrow> 's \<Rightarrow> bool"

definition Environment_observation :: "('s, 'o, 'z) Environment_scheme \<Rightarrow> 's \<Rightarrow> 'o" where
  "Environment_observation env s = observation_fn env s"

definition Environment_reward ::
  "('s, 'o, 'z) Environment_scheme \<Rightarrow> 's \<Rightarrow> int \<Rightarrow> 's \<Rightarrow> real" where
  "Environment_reward env s a new_state = reward_fn env s a new_state"

text \<open>
  \<^verbatim>\<open>truncated = t >= self.max_steps\<close> compares the signed 32-bit \<^verbatim>\<open>t\<close> with the
  Python integer \<^verbatim>\<open>max_steps\<close>, taken to be one that a 32-bit integer can hold.
\<close>

definition Environment_termination ::
  "('s, 'o, 'z) Environment_scheme \<Rightarrow> 's \<Rightarrow> int \<Rightarrow> 's \<Rightarrow> 32 word \<Rightarrow> int" where
  "Environment_termination env prev_state a s tt =
     (let terminated = termination_fn env prev_state a s;
          truncated = (max_steps env \<le> sint tt)
      in check_truncation terminated truncated)"

text \<open>
  \<^verbatim>\<open>_step\<close>: the action selects a function of the action table, which the caller may
  pass (\<^verbatim>\<open>actions_set\<close>, here the list of the table's values in order). The Timestep is
  built without an \<^verbatim>\<open>info\<close> argument, so the field takes its default, a fresh empty
  dictionary.
\<close>

definition Environment_underscore_step ::
  "('s, 'o, 'z) Environment_scheme \<Rightarrow> ('s, 'o, 'i) Timestep \<Rightarrow> int \<Rightarrow> ('s \<Rightarrow> 's) list
     \<Rightarrow> error + ('s, 'o, 'i) Timestep" where
  "Environment_underscore_step env timestep a actions_set =
     (case lax_switch a actions_set (state timestep) of
        Inl e \<Rightarrow> Inl e
      | Inr s \<Rightarrow>
          Inr \<lparr>t = t timestep + 1,
               observation = Environment_observation env s,
               action = a,
               reward = Environment_reward env (state timestep) a s,
               step_type = Environment_termination env (state timestep) a s (t timestep + 1),
               state = s,
               info = Map.empty\<rparr>)"

text \<open>
  \<^verbatim>\<open>step\<close>: \<^verbatim>\<open>reset\<close> is abstract in the base class, so the model takes the reset
  of the concrete environment as its first argument.
\<close>

definition Environment_step ::
  "('k \<Rightarrow> error + ('k State, 'o, 'i) Timestep) \<Rightarrow> ('k State, 'o, 'z) Environment_scheme
     \<Rightarrow> ('k State, 'o, 'i) Timestep \<Rightarrow> int \<Rightarrow> ('k State \<Rightarrow> 'k State) list
     \<Rightarrow> error + ('k State, 'o, 'i) Timestep" where
  "Environment_step reset_method env timestep a actions_set =
     (let should_reset = (0 < step_type timestep)
      in lax_cond should_reset
           (\<lambda>ts. reset_method (key (state ts)))
           (\<lambda>ts. Environment_underscore_step env ts a actions_set)
           timestep)"

section \<open>The room environment (environments/room.py)\<close>

text \<open>
  \<^verbatim>\<open>jax.random.split(key, 3)\<close> is the random source's own operation; the model takes
  it as the argument \<open>split\<close>, returning the three keys. \<^verbatim>\<open>room\<close> is called with
  the width first and the height second. The fields that \<^verbatim>\<open>Player(...)\<close>,
  \<^verbatim>\<open>Goal(...)\<close> and \<^verbatim>\<open>State(...)\<close> are not given take the defaults of their classes.
\<close>

definition Room_reset ::
  "('k \<Rightarrow> 'k \<times> 'k \<times> 'k) \<Rightarrow> ('k State, 'o, 'z) Environment_scheme \<Rightarrow> 'k
     \<Rightarrow> error + ('k State, 'o, 'i) Timestep" where
  "Room_reset split env k =
     (case split k of (k0, k1, k2) \<Rightarrow>
        (let player_new = \<lparr>position = Vector [0, 0], direction = 0, pocket = 0\<rparr>;
             goal = \<lparr>position = Vector [width env - 1, height env - 1], probability = [1]\<rparr>
         in case room (width env) (height env) of
              Inl e \<Rightarrow> Inl e
            | Inr g \<Rightarrow>
                (let s = \<lparr>key = k0, grid = g, player = player_new, goals = goal,
                          keys = Pickable_default, doors = Consumable_default\<rparr>
                 in Inr \<lparr>t = 0,
                         observation = Environment_observation env s,
                         action = 0,
                         reward = 0,
                         step_type = 0,
                         state = s,
                         info = Map.empty\<rparr>)))"

section \<open>The empty room environment (environments/empty.py)\<close>

text \<open>
  This module is written against the entity-based State, whose modules (entities,
  states, rendering cache, grid) are absent. What \<^verbatim>\<open>_reset\<close> needs of them is modelled
  here or taken as an argument.
\<close>

text \<open>
  Modelled from the spec: the entity records that \<^verbatim>\<open>Player.create\<close> and
  \<^verbatim>\<open>Goal.create\<close> of the absent entities module build. The specification (section 3)
  gives a Player a position, a direction and a pocket, and a Goal a position and a
  probability; \<^verbatim>\<open>Entities\<close> is the enumeration of entity kinds, of which \<^verbatim>\<open>_reset\<close>
  uses the two members below.
\<close>

datatype Entity =
    Player_create (entity_position: "int Array") (entity_direction: "int Array")
      (entity_pocket: "int Array")
  | Goal_create (entity_position: "int Array") (entity_probability: "real Array")

datatype Entities = PLAYER | GOAL

text \<open>
  Modelled from the spec: the State of the absent states module, built by \<^verbatim>\<open>_reset\<close>
  from a key, a grid, a rendering cache and the dictionary of entity batches.
\<close>

record ('k, 'c) States_State =
  state_key :: 'k
  state_grid :: "int list list"
  state_cache :: 'c
  state_entities :: "Entities \<rightharpoonup> Entity list"

record ('s, 'o) Room = "('s, 'o) Environment" +
  random_start :: bool

text \<open>
  What the grid and cache modules and the random source provide, as arguments of
  \<^verbatim>\<open>_reset\<close>: \<^verbatim>\<open>jax.random.split(key, 3)\<close>, \<^verbatim>\<open>random_positions\<close> (the array of the
  \<open>n\<close> positions drawn, or a failure), \<^verbatim>\<open>random_directions\<close>, the constant
  \<^verbatim>\<open>EMPTY_POCKET_ID\<close> and \<^verbatim>\<open>RenderingCache.init\<close>.
\<close>

record ('k, 'c) Modules =
  split3 :: "'k \<Rightarrow> 'k \<times> 'k \<times> 'k"
  random_positions :: "'k \<Rightarrow> int list list \<Rightarrow> nat \<Rightarrow> error + int list list"
  random_directions :: "'k \<Rightarrow> nat \<Rightarrow> int list"
  EMPTY_POCKET_ID :: int
  RenderingCache_init :: "int list list \<Rightarrow> 'c"

text \<open>
  The placement of \<^verbatim>\<open>_reset\<close>: the positions of player and goal and the direction.
  Unpacking \<^verbatim>\<open>player_pos, goal_pos = random_positions(k1, grid, n=2)\<close> needs exactly
  two rows.
\<close>

definition Room_placement ::
  "('k, 'c) Modules \<Rightarrow> (('k, 'c) States_State, 'o) Room \<Rightarrow> 'k \<Rightarrow> 'k \<Rightarrow> int list list
     \<Rightarrow> error + (int Array \<times> int Array \<times> int Array)" where
  "Room_placement m env k1 k2 g =
     (if random_start env then
        (case random_positions m k1 g 2 of
           Inl e \<Rightarrow> Inl e
         | Inr [player_pos, goal_pos] \<Rightarrow>
             Inr (Vector player_pos, Vector goal_pos, Vector (random_directions m k2 1))
         | Inr _ \<Rightarrow> Inl UnpackError)
      else
        Inr (Vector [1, 1], Vector [height env - 2, width env - 2], Scalar 0))"

text \<open>
  \<^verbatim>\<open>_reset(key, cache=None)\<close>. \<^verbatim>\<open>player[None]\<close> and \<^verbatim>\<open>goal[None]\<close> add the batch
  axis: a batch of one entity.
\<close>

definition Room_underscore_reset ::
  "('k, 'c) Modules \<Rightarrow> (('k, 'c) States_State, 'o) Room \<Rightarrow> 'k \<Rightarrow> 'c option
     \<Rightarrow> error + (('k, 'c) States_State, 'o, 'i) Timestep" where
  "Room_underscore_reset m env k cache =
     (case split3 m k of (k0, k1, k2) \<Rightarrow>
        (case room (height env) (width env) of
           Inl e \<Rightarrow> Inl e
         | Inr g \<Rightarrow>
             (case Room_placement m env k1 k2 g of
                Inl e \<Rightarrow> Inl e
              | Inr (player_pos, goal_pos, dir) \<Rightarrow>
                  (let player_new = Player_create player_pos dir (Scalar (EMPTY_POCKET_ID m));
                       goal = Goal_create goal_pos (Scalar 1);
                       entities = [PLAYER \<mapsto> [player_new], GOAL \<mapsto> [goal]];
                       s = \<lparr>state_key = k0,
                            state_grid = g,
                            state_cache =
                              (case cache of Some c \<Rightarrow> c | None \<Rightarrow> RenderingCache_init m g),
                            state_entities = entities\<rparr>
                   in Inr \<lparr>t = 0,
                           observation = observation_fn env s,
                           action = 0,
                           reward = 0,
                           step_type = 0,
                           state = s,
                           info = Map.empty\<rparr>))))"

section \<open>Example inputs\<close>

text \<open>
  A 5 by 5 room environment over natural-number keys, a two-entry action table and the
  Timesteps the examples below are evaluated at.
\<close>

definition example_split :: "nat \<Rightarrow> nat \<times> nat \<times> nat" where
  "example_split k = (3 * k + 1, 3 * k + 2, 3 * k + 3)"

definition example_env :: "(nat State, int list list) Environment" where
  "example_env =
     \<lparr>width = 5, height = 5, max_steps = 100, gamma = 1,
      observation_fn = grid,
      reward_fn = (\<lambda>s a s'. 0),
      termination_fn = (\<lambda>s a s'. position (player s') = position (goals s'))\<rparr>"

definition example_forward :: "nat State \<Rightarrow> nat State" where
  "example_forward s = s"

definition example_turn :: "nat State \<Rightarrow> nat State" where
  "example_turn s = s\<lparr>player := (player s)\<lparr>direction := (direction (player s) + 1) mod 4\<rparr>\<rparr>"

definition example_actions :: "(nat State \<Rightarrow> nat State) list" where
  "example_actions = [example_forward, example_turn]"

definition example_grid :: "int list list" where
  "example_grid =
     [[-1, -1, -1, -1, -1],
      [-1, 0, 0, 0, -1],
      [-1, 0, 0, 0, -1],
      [-1, 0, 0, 0, -1],
      [-1, -1, -1, -1, -1]]"

definition example_state :: "nat \<Rightarrow> nat State" where
  "example_state k =
     \<lparr>key = k, grid = example_grid,
      player = \<lparr>position = Vector [0, 0], direction = 0, pocket = 0\<rparr>,
      goals = \<lparr>position = Vector [4, 4], probability = [1]\<rparr>,
      keys = Pickable_default, doors = Consumable_default\<rparr>"

definition example_timestep :: "nat \<Rightarrow> int \<Rightarrow> (nat State, int list list, int) Timestep" where
  "example_timestep k st =
     \<lparr>t = 0, observation = example_grid, action = 0, reward = 0, step_type = st,
      state = example_state k, info = Map.empty\<rparr>"

definition example_env_ending :: "(nat State, int list list) Environment" where
  "example_env_ending = example_env\<lparr>max_steps := 1, termination_fn := (\<lambda>s a s'. True)\<rparr>"

definition example_random_positions :: "nat \<Rightarrow> int list list \<Rightarrow> nat \<Rightarrow> error + int list list" where
  "example_random_positions k g n =
     (if n \<le> 3 then Inr (map (\<lambda>i. [1, 1 + int i]) [0..<n]) else Inl CapacityError)"

definition example_modules :: "(nat, unit) Modules" where
  "example_modules =
     \<lparr>split3 = example_split,
      random_positions = example_random_positions,
      random_directions = (\<lambda>k n. replicate n 0),
      EMPTY_POCKET_ID = - 1,
      RenderingCache_init = (\<lambda>g. ())\<rparr>"

definition example_room :: "((nat, unit) States_State, int list list) Room" where
  "example_room =
     \<lparr>width = 5, height = 5, max_steps = 100, gamma = 1,
      observation_fn = state_grid,
      reward_fn = (\<lambda>s a s'. 0),
      termination_fn = (\<lambda>s a s'. False),
      random_start = False\<rparr>"

definition example_room_timestep ::
  "nat \<Rightarrow> ((nat, unit) States_State, int list list, int) Timestep" where
  "example_room_timestep k =
     \<lparr>t = 0, observation = example_grid, action = 0, reward = 0, step_type = 0,
      state = \<lparr>state_key = k, state_grid = example_grid, state_cache = (),
               state_entities =
                 [PLAYER \<mapsto> [Player_create (Vector [1, 1]) (Scalar 0) (Scalar (- 1))],
                  GOAL \<mapsto> [Goal_create (Vector [3, 3]) (Scalar 1)]]\<rparr>,
      info = Map.empty\<rparr>"

definition example_info :: "string \<rightharpoonup> int" where
  "example_info = [''steps'' \<mapsto> 3]"

definition example_split_other :: "nat \<Rightarrow> nat \<times> nat \<times> nat" where
  "example_split_other k = (3 * k + 1, 0, k)"

section \<open>Auxiliary facts\<close>

lemma lax_switch_in_range:
  "0 \<le> a \<Longrightarrow> a < int (length acts) \<Longrightarrow> lax_switch a acts s = Inr ((acts ! nat a) s)"
  by (auto simp: lax_switch_def min_def max_def)

lemma sint_succ: "sint (w :: 32 word) < 2 ^ 31 - 1 \<Longrightarrow> sint (w + 1) = sint w + 1"
proof -
  have lo: "- (2 ^ 31) \<le> sint w" using sint_ge [of w] by simp
  assume hi: "sint w < 2 ^ 31 - 1"
  have "sint (w + 1) = signed_take_bit 31 (sint w + 1)"
    by (simp add: sint_word_ariths)
  also have "\<dots> = sint w + 1"
    by (rule signed_take_bit_int_eq_self) (use lo hi in simp_all)
  finally show ?thesis .
qed

lemma underscore_step_Inr:
  "Environment_underscore_step env ts a acts = Inr r \<Longrightarrow>
     acts \<noteq> [] \<and>
     r = \<lparr>t = t ts + 1,
          observation = observation_fn env (state r),
          action = a,
          reward = reward_fn env (state ts) a (state r),
          step_type = Environment_termination env (state ts) a (state r) (t ts + 1),
          state = (acts ! nat (min (max a 0) (int (length acts) - 1))) (state ts),
          info = Map.empty\<rparr>"
  by (auto simp: Environment_underscore_step_def lax_switch_def Environment_observation_def
      Environment_reward_def split: if_splits)

lemma underscore_step_total:
  "acts \<noteq> [] \<Longrightarrow> \<exists>r. Environment_underscore_step env ts a acts = Inr r"
  by (simp add: Environment_underscore_step_def lax_switch_def)

lemma Room_reset_Inr:
  "Room_reset split env k = Inr r \<Longrightarrow>
     t r = 0 \<and> action r = 0 \<and> reward r = 0 \<and> step_type r = 0 \<and> info r = Map.empty \<and>
     room (width env) (height env) = Inr (grid (state r)) \<and>
     key (state r) = fst (split k) \<and>
     player (state r) = \<lparr>position = Vector [0, 0], direction = 0, pocket = 0\<rparr> \<and>
     goals (state r) = \<lparr>position = Vector [width env - 1, height env - 1], probability = [1]\<rparr> \<and>
     keys (state r) = Pickable_default \<and> doors (state r) = Consumable_default \<and>
     observation r = observation_fn env (state r)"
  by (auto simp: Room_reset_def Environment_observation_def Let_def
      split: prod.splits sum.splits)

lemma Room_reset_total:
  "3 \<le> width env \<Longrightarrow> 3 \<le> height env \<Longrightarrow> \<exists>r. Room_reset split env k = Inr r"
  by (auto simp: Room_reset_def room_def Let_def split: prod.splits)

lemma room_5_5: "room 5 5 = Inr example_grid"
  by (simp add: room_def room_cell_def WALL_def example_grid_def upt_conv_Cons)

lemma example_reset: "Room_reset example_split example_env k = Inr (example_timestep (3 * k + 1) 0)"
  by (simp add: Room_reset_def example_split_def example_env_def room_5_5 example_timestep_def example_state_def Environment_observation_def)

section \<open>Auto-reset\<close>

text \<open>
  C1. When the Timestep passed to \<^verbatim>\<open>step\<close> has \<^verbatim>\<open>step_type > 0\<close> (TRUNCATION or
  TERMINATION), and the action table is not empty, \<^verbatim>\<open>step\<close> returns what \<^verbatim>\<open>reset\<close>
  returns on the key stored in the Timestep's state, whatever the action is: two
  actions give the same result. With the reset of the room environment the returned
  Timestep has \<^verbatim>\<open>t = 0\<close>, and one is returned whenever the room's dimensions are at
  least 3.
\<close>

theorem step_autoreset:
  assumes "0 < step_type ts" and "acts \<noteq> []"
  shows "Environment_step reset_method env ts a acts = reset_method (key (state ts))
    \<and> Environment_step reset_method env ts a acts = Environment_step reset_method env ts a' acts
    \<and> (\<forall>r. Environment_step (Room_reset split env) env ts a acts = Inr r \<longrightarrow> t r = 0)
    \<and> (3 \<le> width env \<and> 3 \<le> height env \<longrightarrow>
         (\<exists>r. Environment_step (Room_reset split env) env ts a acts = Inr r))"
proof -
  obtain r0 :: "('a State, 'b, 'c) Timestep" where r0: "Environment_underscore_step env ts a acts = Inr r0"
    using underscore_step_total [OF assms(2)] by blast
  obtain r1 :: "('a State, 'b, 'c) Timestep" where r1: "Environment_underscore_step env ts a' acts = Inr r1"
    using underscore_step_total [OF assms(2)] by blast
  have eq: "Environment_step rm env ts a acts = rm (key (state ts))"
    and eq': "Environment_step rm env ts a' acts = rm (key (state ts))" for rm
    using assms(1) r0 r1
    by (simp_all add: Environment_step_def lax_cond_def split: sum.splits)
  have t0: "\<forall>r. Environment_step (Room_reset split env) env ts a acts = Inr r \<longrightarrow> t r = 0"
    using Room_reset_Inr by (fastforce simp: eq)
  have tot: "3 \<le> width env \<and> 3 \<le> height env \<longrightarrow>
         (\<exists>r. Environment_step (Room_reset split env) env ts a acts = Inr r)"
    using Room_reset_total by (fastforce simp: eq)
  show ?thesis
    using t0 tot by (simp add: eq eq')
qed


theorem step_autoreset_witness:
  "0 < step_type (example_timestep 7 2) \<and> example_actions \<noteq> [] \<and>
   Environment_step (Room_reset example_split example_env) example_env (example_timestep 7 2) 1
     example_actions = Inr (example_timestep 22 0) \<and>
   Environment_step (Room_reset example_split example_env) example_env (example_timestep 7 2) 1
     example_actions =
   Environment_step (Room_reset example_split example_env) example_env (example_timestep 7 2) 0
     example_actions \<and>
   t (example_timestep 22 0) = 0"
proof -
  have h1: "0 < step_type (example_timestep 7 2)"
    by (simp add: example_timestep_def)
  have h2: "example_actions \<noteq> []"
    by (simp add: example_actions_def)
  have k: "key (state (example_timestep 7 2)) = 7"
    by (simp add: example_timestep_def example_state_def)
  have t0: "t (example_timestep 22 0) = 0"
    by (simp add: example_timestep_def)
  show ?thesis
    using step_autoreset [OF h1 h2, where reset_method = "Room_reset example_split example_env"
        and env = example_env and a = 1 and a' = 0 and split = example_split]
      h1 h2 t0
    by (auto simp: k example_reset)
qed

section \<open>Grid construction\<close>

lemma room_Inr:
  assumes "3 \<le> h" and "3 \<le> w"
  shows "\<exists>g. room h w = Inr g \<and> length g = nat h \<and>
           (\<forall>i<nat h. length (g ! i) = nat w \<and>
              (\<forall>j<nat w. g ! i ! j =
                 (if i = 0 \<or> i = nat h - 1 \<or> j = 0 \<or> j = nat w - 1 then WALL else 0)))"
proof -
  have b: "int i = h - 1 \<longleftrightarrow> i = nat h - 1" "int j = w - 1 \<longleftrightarrow> j = nat w - 1" for i j
    using assms by auto
  show ?thesis
    using assms by (simp add: room_def room_cell_def b)
qed

text \<open>
  C8. \<^verbatim>\<open>room(height, width)\<close> is a function of its two arguments. It fails, with
  InvalidDimension, exactly when the height or the width is below 3. Otherwise it
  returns a grid of \<open>height\<close> rows of \<open>width\<close> cells, whose cells in the first and
  last row and column are walls and whose other cells are floor (0); a wall is not
  floor.
\<close>

theorem room_contract:
  "(room h w = Inl InvalidDimension \<longleftrightarrow> h < 3 \<or> w < 3)
   \<and> (isl (room h w) \<longleftrightarrow> h < 3 \<or> w < 3)
   \<and> (3 \<le> h \<and> 3 \<le> w \<longrightarrow>
        (\<exists>g. room h w = Inr g \<and> length g = nat h \<and>
           (\<forall>i<nat h. length (g ! i) = nat w \<and>
              (\<forall>j<nat w. g ! i ! j =
                 (if i = 0 \<or> i = nat h - 1 \<or> j = 0 \<or> j = nat w - 1 then WALL else 0)))))
   \<and> WALL \<noteq> 0"
proof -
  have 1: "room h w = Inl InvalidDimension \<longleftrightarrow> h < 3 \<or> w < 3"
    by (simp add: room_def)
  have 2: "isl (room h w) \<longleftrightarrow> h < 3 \<or> w < 3"
    by (simp add: room_def)
  have 3: "WALL \<noteq> 0"
    by (simp add: WALL_def)
  show ?thesis
    using 1 2 3 room_Inr [of h w] by blast
qed

theorem room_contract_witness:
  "room 5 5 = Inr example_grid \<and> room 2 5 = Inl InvalidDimension \<and> room 5 2 = Inl InvalidDimension
   \<and> example_grid ! 0 ! 3 = WALL \<and> example_grid ! 2 ! 3 = 0"
proof -
  have "example_grid ! 0 ! 3 = WALL" "example_grid ! 2 ! 3 = 0"
    by (simp_all add: example_grid_def WALL_def)
  then show ?thesis
    using room_contract [of 5 5] room_contract [of 2 5] room_contract [of 5 2]
    by (simp add: room_5_5)
qed

section \<open>Termination and truncation\<close>

text \<open>
  C2. The step type computed for a step is TERMINATION if the termination function
  holds, else TRUNCATION if the step is truncated, else TRANSITION; so it is
  TERMINATION when both hold. Truncated means \<^verbatim>\<open>max_steps <= t\<close> for the \<^verbatim>\<open>t\<close> passed,
  and \<^verbatim>\<open>_step\<close> passes the old \<^verbatim>\<open>t\<close> plus one, in 32-bit arithmetic: the integer
  \<^verbatim>\<open>old.t + 1\<close> unless the old \<^verbatim>\<open>t\<close> is the largest 32-bit value.
\<close>

theorem termination_priority:
  "Environment_termination env prev a s tt =
     (if termination_fn env prev a s then StepType_value TERMINATION
      else if max_steps env \<le> sint tt then StepType_value TRUNCATION
      else StepType_value TRANSITION)
   \<and> (termination_fn env prev a s \<and> max_steps env \<le> sint tt \<longrightarrow>
        Environment_termination env prev a s tt = StepType_value TERMINATION)
   \<and> (\<forall>r. Environment_underscore_step env ts a acts = Inr r \<longrightarrow>
        step_type r = Environment_termination env (state ts) a (state r) (t ts + 1))
   \<and> (sint (t ts) < 2 ^ 31 - 1 \<longrightarrow> sint (t ts + 1) = sint (t ts) + 1)"
proof -
  have 1: "\<forall>r. Environment_underscore_step env ts a acts = Inr r \<longrightarrow>
        step_type r = Environment_termination env (state ts) a (state r) (t ts + 1)"
    by (auto simp: Environment_underscore_step_def split: sum.splits)
  show ?thesis
    using 1 sint_succ [of "t ts"]
    by (simp add: Environment_termination_def check_truncation_def)
qed

theorem termination_priority_witness:
  "termination_fn example_env_ending (example_state 7) 1 (example_turn (example_state 7))
   \<and> max_steps example_env_ending \<le> sint (1 :: 32 word)
   \<and> Environment_termination example_env_ending (example_state 7) 1
       (example_turn (example_state 7)) 1 = StepType_value TERMINATION"
proof -
  have h1: "termination_fn example_env_ending (example_state 7) 1 (example_turn (example_state 7))"
    by (simp add: example_env_ending_def)
  have h2: "max_steps example_env_ending \<le> sint (1 :: 32 word)"
    by (simp add: example_env_ending_def)
  show ?thesis
    using termination_priority [of example_env_ending "example_state 7" 1
        "example_turn (example_state 7)" 1 "example_timestep 7 0" example_actions] h1 h2
    by blast
qed

section \<open>A step of a running episode\<close>

text \<open>
  C3. For a Timestep whose \<^verbatim>\<open>step_type\<close> is TRANSITION and an action \<open>a\<close> in the range
  of the action table, in an environment whose reset does not fail, \<^verbatim>\<open>step\<close> returns
  the Timestep whose state is the \<open>a\<close>-th function of the table applied to the old
  state, whose \<^verbatim>\<open>t\<close> is the old \<^verbatim>\<open>t\<close> plus one, whose action is \<open>a\<close>, whose reward is
  \<^verbatim>\<open>reward_fn(old_state, a, new_state)\<close> and whose observation is
  \<^verbatim>\<open>observation_fn(new_state)\<close>.
\<close>

theorem step_transition:
  assumes "step_type ts = StepType_value TRANSITION"
    and "0 \<le> a" and "a < int (length acts)"
    and "reset_method (key (state ts)) = Inr r0"
  shows "\<exists>r. Environment_step reset_method env ts a acts = Inr r
    \<and> state r = (acts ! nat a) (state ts)
    \<and> t r = t ts + 1
    \<and> action r = a
    \<and> reward r = reward_fn env (state ts) a (state r)
    \<and> observation r = observation_fn env (state r)"
  using assms
  by (simp add: Environment_step_def lax_cond_def Environment_underscore_step_def
      lax_switch_in_range Environment_observation_def Environment_reward_def)

theorem step_transition_witness:
  "step_type (example_timestep 7 0) = StepType_value TRANSITION \<and> (0 :: int) \<le> 1
   \<and> (1 :: int) < int (length example_actions)
   \<and> Room_reset example_split example_env (key (state (example_timestep 7 0)))
       = Inr (example_timestep 22 0)
   \<and> (\<exists>r. Environment_step (Room_reset example_split example_env) example_env
             (example_timestep 7 0) 1 example_actions = Inr r
        \<and> state r = example_turn (example_state 7) \<and> t r = 1 \<and> action r = 1
        \<and> reward r = 0 \<and> observation r = example_grid)"
proof -
  have h1: "step_type (example_timestep 7 0) = StepType_value TRANSITION"
    by (simp add: example_timestep_def)
  have h2: "(0 :: int) \<le> 1" by simp
  have h3: "(1 :: int) < int (length example_actions)"
    by (simp add: example_actions_def)
  have h4: "Room_reset example_split example_env (key (state (example_timestep 7 0)))
       = Inr (example_timestep 22 0)"
    by (simp add: example_reset) (simp add: example_timestep_def example_state_def)
  have e: "(example_actions ! Suc 0) (state (example_timestep 7 0)) = example_turn (example_state 7)"
    "t (example_timestep 7 0) + 1 = 1"
    "reward_fn example_env x 1 y = 0"
    "observation_fn example_env (example_turn (example_state 7)) = example_grid" for x y
    by (simp_all add: example_actions_def example_timestep_def example_env_def
        example_turn_def example_state_def)
  show ?thesis
    using step_transition [where reset_method = "Room_reset example_split example_env"
        and env = example_env, OF h1 h2 h3 h4] h1 h3 h4
    by (auto simp: e)
qed

text \<open>
  C9. For a Timestep whose \<^verbatim>\<open>step_type\<close> is TRANSITION and any action, with a
  non-empty action table and a reset that does not fail, the Timestep that \<^verbatim>\<open>step\<close>
  returns is the one \<^verbatim>\<open>_step\<close> builds; its \<^verbatim>\<open>info\<close> is the empty dictionary, and the
  same Timestep is returned whatever the \<^verbatim>\<open>info\<close> of the input holds.
\<close>

theorem step_info_not_propagated:
  assumes "step_type ts = StepType_value TRANSITION"
    and "acts \<noteq> []"
    and "reset_method (key (state ts)) = Inr r0"
  shows "\<exists>r. Environment_step reset_method env ts a acts = Inr r
    \<and> Environment_underscore_step env ts a acts = Inr r
    \<and> info r = Map.empty
    \<and> (\<forall>m. Environment_step reset_method env (ts\<lparr>info := m\<rparr>) a acts = Inr r)"
  using assms
  by (simp add: Environment_step_def lax_cond_def Environment_underscore_step_def
      lax_switch_def)

theorem step_info_not_propagated_witness:
  "step_type ((example_timestep 7 0)\<lparr>info := example_info\<rparr>) = StepType_value TRANSITION
   \<and> example_actions \<noteq> []
   \<and> info ((example_timestep 7 0)\<lparr>info := example_info\<rparr>) ''steps'' = Some 3
   \<and> (\<exists>r. Environment_step (Room_reset example_split example_env) example_env
             ((example_timestep 7 0)\<lparr>info := example_info\<rparr>) 5 example_actions = Inr r
        \<and> info r = Map.empty \<and> info r ''steps'' = None)"
proof -
  have h1: "step_type ((example_timestep 7 0)\<lparr>info := example_info\<rparr>) = StepType_value TRANSITION"
    by (simp add: example_timestep_def)
  have h2: "example_actions \<noteq> []"
    by (simp add: example_actions_def)
  have h3: "Room_reset example_split example_env
      (key (state ((example_timestep 7 0)\<lparr>info := example_info\<rparr>))) = Inr (example_timestep 22 0)"
    by (simp add: example_reset) (simp add: example_timestep_def example_state_def)
  have i: "info ((example_timestep 7 0)\<lparr>info := example_info\<rparr>) ''steps'' = Some 3"
    by (simp add: example_info_def)
  show ?thesis
    using step_info_not_propagated [where reset_method = "Room_reset example_split example_env"
        and env = example_env and a = 5, OF h1 h2 h3] h1 h2 i
    by auto
qed

section \<open>Reset\<close>

lemma Room_underscore_reset_Inr:
  "Room_underscore_reset m env k cache = Inr r \<Longrightarrow>
     t r = 0 \<and> action r = 0 \<and> reward r = 0 \<and> step_type r = 0 \<and> info r = Map.empty \<and>
     room (height env) (width env) = Inr (state_grid (state r)) \<and>
     state_key (state r) = fst (split3 m k) \<and>
     observation r = observation_fn env (state r)"
  by (auto simp: Room_underscore_reset_def Let_def split: prod.splits sum.splits)

lemma Room_underscore_reset_fixed:
  assumes "\<not> random_start env" and "3 \<le> height env" and "3 \<le> width env"
  shows "\<exists>r. Room_underscore_reset m env k cache = Inr r \<and>
     state_entities (state r) =
       [PLAYER \<mapsto> [Player_create (Vector [1, 1]) (Scalar 0) (Scalar (EMPTY_POCKET_ID m))],
        GOAL \<mapsto> [Goal_create (Vector [height env - 2, width env - 2]) (Scalar 1)]]"
  using assms
  by (auto simp: Room_underscore_reset_def Room_placement_def room_def Let_def
      split: prod.splits)

lemma example_room_reset:
  "Room_underscore_reset example_modules example_room k None = Inr (example_room_timestep (3 * k + 1))"
  by (simp add: Room_underscore_reset_def Room_placement_def example_modules_def
      example_room_def room_5_5 example_split_def example_room_timestep_def)

text \<open>
  C7. For every seed key, a Timestep returned by \<^verbatim>\<open>reset\<close> (of room.py) or by
  \<^verbatim>\<open>_reset\<close> (of empty.py) has \<^verbatim>\<open>t = 0\<close>, \<^verbatim>\<open>action = 0\<close>, \<^verbatim>\<open>reward = 0.0\<close> and
  \<^verbatim>\<open>step_type\<close> TRANSITION; \<^verbatim>\<open>reset\<close> returns one whenever width and height are at
  least 3, and so does \<^verbatim>\<open>_reset\<close> when the start is not random.
\<close>

theorem reset_initial_timestep:
  "(\<forall>r. Room_reset split env k = Inr r \<longrightarrow>
      t r = 0 \<and> action r = 0 \<and> reward r = 0 \<and> step_type r = StepType_value TRANSITION)
   \<and> (3 \<le> width env \<and> 3 \<le> height env \<longrightarrow> (\<exists>r. Room_reset split env k = Inr r))
   \<and> (\<forall>r. Room_underscore_reset m env' k' cache = Inr r \<longrightarrow>
      t r = 0 \<and> action r = 0 \<and> reward r = 0 \<and> step_type r = StepType_value TRANSITION)
   \<and> (3 \<le> width env' \<and> 3 \<le> height env' \<and> \<not> random_start env' \<longrightarrow>
        (\<exists>r. Room_underscore_reset m env' k' cache = Inr r))"
proof (intro conjI)
  show "\<forall>r. Room_reset split env k = Inr r \<longrightarrow>
      t r = 0 \<and> action r = 0 \<and> reward r = 0 \<and> step_type r = StepType_value TRANSITION"
    using Room_reset_Inr by fastforce
  show "3 \<le> width env \<and> 3 \<le> height env \<longrightarrow> (\<exists>r. Room_reset split env k = Inr r)"
    using Room_reset_total [of env split k] by auto
  show "\<forall>r. Room_underscore_reset m env' k' cache = Inr r \<longrightarrow>
      t r = 0 \<and> action r = 0 \<and> reward r = 0 \<and> step_type r = StepType_value TRANSITION"
    using Room_underscore_reset_Inr by fastforce
  show "3 \<le> width env' \<and> 3 \<le> height env' \<and> \<not> random_start env' \<longrightarrow>
        (\<exists>r. Room_underscore_reset m env' k' cache = Inr r)"
    using Room_underscore_reset_fixed [of env' m k' cache] by auto
qed

theorem reset_initial_timestep_witness:
  "Room_reset example_split example_env 7 = Inr (example_timestep 22 0)
   \<and> t (example_timestep 22 0) = 0 \<and> action (example_timestep 22 0) = 0
   \<and> reward (example_timestep 22 0) = 0 \<and> step_type (example_timestep 22 0) = 0
   \<and> Room_underscore_reset example_modules example_room 7 None = Inr (example_room_timestep 22)
   \<and> t (example_room_timestep 22) = 0 \<and> action (example_room_timestep 22) = 0
   \<and> reward (example_room_timestep 22) = 0 \<and> step_type (example_room_timestep 22) = 0"
proof -
  have a: "Room_reset example_split example_env 7 = Inr (example_timestep 22 0)"
    using example_reset [of 7] by simp
  have b: "Room_underscore_reset example_modules example_room 7 None = Inr (example_room_timestep 22)"
    using example_room_reset [of 7] by simp
  show ?thesis
    using reset_initial_timestep [of example_split example_env 7 example_modules example_room 7 None]
      a b
    by auto
qed

text \<open>
  C10. For the room environment of room.py the placement does not depend on the seed:
  the States that \<^verbatim>\<open>reset\<close> returns for two keys have the same grid, player, goals,
  keys and doors, and differ in the stored key only, which is the first key of the
  split; \<^verbatim>\<open>reset\<close> fails for one key exactly when it fails for the other. The second
  and third key of the split are not used: a split that returns the same first key
  gives the same Timestep.
\<close>

theorem Room_reset_seed_independent:
  "(\<forall>r1 r2. Room_reset split env k1 = Inr r1 \<and> Room_reset split env k2 = Inr r2 \<longrightarrow>
      grid (state r1) = grid (state r2)
      \<and> player (state r1) = player (state r2)
      \<and> goals (state r1) = goals (state r2)
      \<and> keys (state r1) = keys (state r2)
      \<and> doors (state r1) = doors (state r2)
      \<and> key (state r1) = fst (split k1) \<and> key (state r2) = fst (split k2)
      \<and> state r1 = (state (r2 :: ('k State, 'o, 'i) Timestep))\<lparr>key := fst (split k1)\<rparr>
      \<and> observation r1 = observation_fn env (state (r1 :: ('k State, 'o, 'i) Timestep)))
   \<and> (isl (Room_reset split env k1 :: error + ('k State, 'o, 'i) Timestep) \<longleftrightarrow>
        isl (Room_reset split env k2 :: error + ('k State, 'o, 'i) Timestep))
   \<and> (fst (split k1) = fst (split' k1) \<longrightarrow>
        Room_reset split env k1 =
          (Room_reset split' env k1 :: error + ('k State, 'o, 'i) Timestep))"
proof (intro conjI)
  show "\<forall>r1 r2. Room_reset split env k1 = Inr r1 \<and> Room_reset split env k2 = Inr r2 \<longrightarrow>
      grid (state r1) = grid (state r2)
      \<and> player (state r1) = player (state r2)
      \<and> goals (state r1) = goals (state r2)
      \<and> keys (state r1) = keys (state r2)
      \<and> doors (state r1) = doors (state r2)
      \<and> key (state r1) = fst (split k1) \<and> key (state r2) = fst (split k2)
      \<and> state r1 = (state (r2 :: ('k State, 'o, 'i) Timestep))\<lparr>key := fst (split k1)\<rparr>
      \<and> observation r1 = observation_fn env (state (r1 :: ('k State, 'o, 'i) Timestep))"
    by (auto simp: Room_reset_def Let_def Environment_observation_def
        split: prod.splits sum.splits)
  show "isl (Room_reset split env k1 :: error + ('k State, 'o, 'i) Timestep) \<longleftrightarrow>
        isl (Room_reset split env k2 :: error + ('k State, 'o, 'i) Timestep)"
    by (auto simp: Room_reset_def Let_def split: prod.splits sum.splits)
  show "fst (split k1) = fst (split' k1) \<longrightarrow>
        Room_reset split env k1 =
          (Room_reset split' env k1 :: error + ('k State, 'o, 'i) Timestep)"
    by (auto simp: Room_reset_def Let_def split: prod.splits sum.splits)
qed

theorem Room_reset_seed_independent_witness:
  "Room_reset example_split example_env 7 = Inr (example_timestep 22 0)
   \<and> Room_reset example_split example_env 8 = Inr (example_timestep 25 0)
   \<and> state (example_timestep 22 0) = (state (example_timestep 25 0))\<lparr>key := 22\<rparr>
   \<and> fst (example_split 7) = fst (example_split_other 7)
   \<and> snd (example_split 7) \<noteq> snd (example_split_other 7)
   \<and> Room_reset example_split_other example_env 7 = Inr (example_timestep 22 0)"
proof -
  have a: "Room_reset example_split example_env 7 = Inr (example_timestep 22 0)"
    using example_reset [of 7] by simp
  have b: "Room_reset example_split example_env 8 = Inr (example_timestep 25 0)"
    using example_reset [of 8] by simp
  have c: "fst (example_split 7) = fst (example_split_other 7)"
    "snd (example_split 7) \<noteq> snd (example_split_other 7)"
    "fst (example_split 7) = 22"
    by (simp_all add: example_split_def example_split_other_def)
  show ?thesis
    using Room_reset_seed_independent [of example_split example_env 7 8 example_split_other]
      a b c
    by auto
qed

section \<open>Placement\<close>

text \<open>
  C4, as the code has it. For the room environment of empty.py with a start that is
  not random and height and width at least 3, \<^verbatim>\<open>_reset\<close> returns a Timestep whose
  state has one Player, at position (1, 1) with direction 0 and the empty pocket, and
  one Goal, at position (height - 2, width - 2); its grid is \<^verbatim>\<open>room(height, width)\<close>:
  \<open>height\<close> rows of \<open>width\<close> cells, walls on the first and last row and column and
  floor elsewhere, so that both positions are floor cells.
\<close>

theorem Room_underscore_reset_placement:
  assumes "\<not> random_start env" and "3 \<le> height env" and "3 \<le> width env"
  shows "\<exists>r :: (('k, 'c) States_State, 'o, 'i) Timestep.
      Room_underscore_reset m env k cache = Inr r
    \<and> state_entities (state r) PLAYER =
        Some [Player_create (Vector [1, 1]) (Scalar 0) (Scalar (EMPTY_POCKET_ID m))]
    \<and> state_entities (state r) GOAL =
        Some [Goal_create (Vector [height env - 2, width env - 2]) (Scalar 1)]
    \<and> room (height env) (width env) = Inr (state_grid (state r))
    \<and> length (state_grid (state r)) = nat (height env)
    \<and> (\<forall>i<nat (height env). length (state_grid (state r) ! i) = nat (width env)
         \<and> (\<forall>j<nat (width env). state_grid (state r) ! i ! j =
              (if i = 0 \<or> i = nat (height env) - 1 \<or> j = 0 \<or> j = nat (width env) - 1
               then WALL else 0)))
    \<and> state_grid (state r) ! 1 ! 1 = 0
    \<and> state_grid (state r) ! nat (height env - 2) ! nat (width env - 2) = 0"
proof -
  obtain r :: "(('k, 'c) States_State, 'o, 'i) Timestep"
    where r: "Room_underscore_reset m env k cache = Inr r"
    and e: "state_entities (state r) =
       [PLAYER \<mapsto> [Player_create (Vector [1, 1]) (Scalar 0) (Scalar (EMPTY_POCKET_ID m))],
        GOAL \<mapsto> [Goal_create (Vector [height env - 2, width env - 2]) (Scalar 1)]]"
    using Room_underscore_reset_fixed [OF assms] by blast
  have g: "room (height env) (width env) = Inr (state_grid (state r))"
    using Room_underscore_reset_Inr [OF r] by simp
  obtain g' where g': "room (height env) (width env) = Inr g'" "length g' = nat (height env)"
    and cells: "\<forall>i<nat (height env). length (g' ! i) = nat (width env) \<and>
              (\<forall>j<nat (width env). g' ! i ! j =
                 (if i = 0 \<or> i = nat (height env) - 1 \<or> j = 0 \<or> j = nat (width env) - 1
                  then WALL else 0))"
    using room_Inr [OF assms(2) assms(3)] by blast
  have eq: "state_grid (state r) = g'"
    using g g' by simp
  have i1: "(1 :: nat) < nat (height env)" "(1 :: nat) < nat (width env)"
    "nat (height env - 2) < nat (height env)" "nat (width env - 2) < nat (width env)"
    using assms by auto
  have c1: "g' ! 1 ! 1 = 0"
    using cells i1 assms by auto
  have c2: "g' ! nat (height env - 2) ! nat (width env - 2) = 0"
  proof -
    have "nat (height env - 2) \<noteq> 0" "nat (height env - 2) \<noteq> nat (height env) - 1"
      "nat (width env - 2) \<noteq> 0" "nat (width env - 2) \<noteq> nat (width env) - 1"
      using assms by auto
    then show ?thesis
      using cells i1 by simp
  qed
  show ?thesis
    using r e g g'(2) cells c1 c2 by (auto simp: eq)
qed

theorem Room_underscore_reset_placement_witness:
  "\<not> random_start example_room \<and> 3 \<le> height example_room \<and> 3 \<le> width example_room
   \<and> Room_underscore_reset example_modules example_room 7 None = Inr (example_room_timestep 22)
   \<and> state_entities (state (example_room_timestep 22)) PLAYER =
       Some [Player_create (Vector [1, 1]) (Scalar 0) (Scalar (- 1))]
   \<and> state_entities (state (example_room_timestep 22)) GOAL =
       Some [Goal_create (Vector [3, 3]) (Scalar 1)]
   \<and> state_grid (state (example_room_timestep 22)) = example_grid"
proof -
  have h: "\<not> random_start example_room" "3 \<le> height example_room" "3 \<le> width example_room"
    by (simp_all add: example_room_def)
  have a: "Room_underscore_reset example_modules example_room 7 None = Inr (example_room_timestep 22)"
    using example_room_reset [of 7] by simp
  have v: "EMPTY_POCKET_ID example_modules = - 1" "height example_room - 2 = 3"
    "width example_room - 2 = 3" "room (height example_room) (width example_room) = Inr example_grid"
    by (simp_all add: example_modules_def example_room_def room_5_5)
  show ?thesis
    using Room_underscore_reset_placement [where 'i = int, OF h, of example_modules 7 None] h a
    by (auto simp: v)
qed

text \<open>
  The room environment of room.py places the Player at (0, 0) and the Goal at
  (width - 1, height - 1): in the 5 by 5 room the player does not start at (1, 1) and
  the goal is not at (3, 3).
\<close>

theorem Room_reset_placement_counterexample:
  "Room_reset example_split example_env 7 = Inr (example_timestep 22 0)
   \<and> position (player (state (example_timestep 22 0))) = Vector [0, 0]
   \<and> position (player (state (example_timestep 22 0))) \<noteq> Vector [1, 1]
   \<and> position (goals (state (example_timestep 22 0))) = Vector [4, 4]
   \<and> position (goals (state (example_timestep 22 0))) \<noteq> Vector [5 - 2, 5 - 2]
   \<and> width example_env = 5 \<and> height example_env = 5"
proof -
  have "Room_reset example_split example_env 7 = Inr (example_timestep 22 0)"
    using example_reset [of 7] by simp
  then show ?thesis
    by (simp add: example_timestep_def example_state_def example_env_def)
qed

end
